theory Spec2Isabelle
  imports Complex_Main "HOL-Library.Word"
begin

section \<open>JavaScript strings\<close>

text \<open>
  A JavaScript string is a sequence of 16-bit UTF-16 code units. Every literal of
  \<^verbatim>\<open>index.js\<close> is written here as the list of its code units.
\<close>

type_synonym jsstring = "16 word list"

definition LF :: "16 word" where "LF = 0x0A"
definition QUOTE :: "16 word" where "QUOTE = 0x22"
definition COMMA :: "16 word" where "COMMA = 0x2C"
definition YEN :: "16 word" where "YEN = 0xA5"

text \<open>
  The header marker of lines 38 and 179: the titles of the first two columns
  (transaction time, transaction type) with the comma between them.
\<close>

definition HEADER_MARKER :: jsstring where
  "HEADER_MARKER = [0x4EA4, 0x6613, 0x65F6, 0x95F4, 0x2C, 0x4EA4, 0x6613, 0x7C7B, 0x578B]"

text \<open>
  The other string literals of the program: the fallback category (other), the
  fallback counterparty and payment method (unknown), the two directions (income,
  expense) and the placeholder for a missing description (no product name, in
  parentheses).
\<close>

definition STR_OTHER :: jsstring where "STR_OTHER = [0x5176, 0x4ED6]"
definition STR_UNKNOWN :: jsstring where "STR_UNKNOWN = [0x672A, 0x77E5]"
definition STR_INCOME :: jsstring where "STR_INCOME = [0x6536, 0x5165]"
definition STR_EXPENSE :: jsstring where "STR_EXPENSE = [0x652F, 0x51FA]"
definition STR_NO_NAME :: jsstring where
  "STR_NO_NAME = [0x28, 0x65E0, 0x5546, 0x54C1, 0x540D, 0x29]"

text \<open>
  The code units that \<^verbatim>\<open>String.prototype.trim\<close> removes and that the regular
  expression class \<^verbatim>\<open>\s\<close> matches: WhiteSpace and LineTerminator of ECMAScript.
\<close>

definition isWhiteSpace :: "16 word \<Rightarrow> bool" where
  "isWhiteSpace c \<longleftrightarrow>
     c = 0x09 \<or> c = 0x0A \<or> c = 0x0B \<or> c = 0x0C \<or> c = 0x0D \<or> c = 0x20 \<or>
     c = 0xA0 \<or> c = 0x1680 \<or> (0x2000 \<le> c \<and> c \<le> 0x200A) \<or>
     c = 0x2028 \<or> c = 0x2029 \<or> c = 0x202F \<or> c = 0x205F \<or> c = 0x3000 \<or> c = 0xFEFF"

definition trimStart :: "jsstring \<Rightarrow> jsstring" where
  "trimStart s = dropWhile isWhiteSpace s"

definition trim :: "jsstring \<Rightarrow> jsstring" where
  "trim s = rev (dropWhile isWhiteSpace (rev (dropWhile isWhiteSpace s)))"

text \<open>
  \<^verbatim>\<open>s.split(sep)\<close> for a separator of one code unit: the pieces between the
  separators, in order; the empty string gives one empty piece.
\<close>

fun split :: "16 word \<Rightarrow> jsstring \<Rightarrow> jsstring list" where
  "split sep [] = [[]]"
| "split sep (c # cs) =
     (if c = sep then [] # split sep cs
      else (case split sep cs of
              [] \<Rightarrow> [[c]]
            | p # ps \<Rightarrow> (c # p) # ps))"

definition startsWith :: "jsstring \<Rightarrow> jsstring \<Rightarrow> bool" where
  "startsWith s sub \<longleftrightarrow> take (length sub) s = sub"

text \<open>\<^verbatim>\<open>s.includes(sub)\<close>: \<open>sub\<close> occurs at some position of \<open>s\<close>.\<close>

fun strIncludes :: "jsstring \<Rightarrow> jsstring \<Rightarrow> bool" where
  "strIncludes [] sub \<longleftrightarrow> sub = []"
| "strIncludes (c # cs) sub \<longleftrightarrow> startsWith (c # cs) sub \<or> strIncludes cs sub"

text \<open>
  \<^verbatim>\<open>xs.findIndex(p)\<close>: the index of the first element that satisfies \<open>p\<close>,
  and \<open>-1\<close> when there is none.
\<close>

fun findIndex :: "('a \<Rightarrow> bool) \<Rightarrow> 'a list \<Rightarrow> int" where
  "findIndex p [] = -1"
| "findIndex p (x # xs) =
     (if p x then 0 else (let i = findIndex p xs in if i = -1 then -1 else i + 1))"

text \<open>
  Array destructuring \<^verbatim>\<open>[a, b, ...] = columns\<close>: a position beyond the end of the
  array is \<^verbatim>\<open>undefined\<close>, here \<open>None\<close>.
\<close>

definition element :: "'a list \<Rightarrow> nat \<Rightarrow> 'a option" where
  "element xs n = (if n < length xs then Some (xs ! n) else None)"

text \<open>
  Truthiness of a value that is a string or \<^verbatim>\<open>undefined\<close>: \<^verbatim>\<open>undefined\<close> and the
  empty string are falsy. \<open>orElse v d\<close> is \<^verbatim>\<open>v || d\<close> for a string \<open>d\<close>.
\<close>

fun truthy :: "jsstring option \<Rightarrow> bool" where
  "truthy None \<longleftrightarrow> False"
| "truthy (Some s) \<longleftrightarrow> s \<noteq> []"

fun orElse :: "jsstring option \<Rightarrow> jsstring \<Rightarrow> jsstring" where
  "orElse None d = d"
| "orElse (Some s) d = (if s = [] then d else s)"

section \<open>Parsing a data line\<close>

text \<open>
  \<^verbatim>\<open>col.replace(/^"|"$/g, '')\<close>. The global replace scans the string from the
  left. At a position it removes the code unit when one of the two alternatives
  matches there: \<^verbatim>\<open>^"\<close> (a quote at the start of the string) or \<^verbatim>\<open>"$\<close> (a quote
  that is the last code unit). The flag says whether the position is the start
  of the string.
\<close>

fun replaceQuotesFrom :: "bool \<Rightarrow> jsstring \<Rightarrow> jsstring" where
  "replaceQuotesFrom atStart [] = []"
| "replaceQuotesFrom atStart (c # cs) =
     (if c = QUOTE \<and> (atStart \<or> cs = []) then replaceQuotesFrom False cs
      else c # replaceQuotesFrom False cs)"

definition replaceQuotes :: "jsstring \<Rightarrow> jsstring" where
  "replaceQuotes s = replaceQuotesFrom True s"

text \<open>The callback of \<^verbatim>\<open>map\<close> in lines 50 and 196.\<close>

definition cleanColumn :: "jsstring \<Rightarrow> jsstring" where
  "cleanColumn col = replaceQuotes (trim col)"

text \<open>\<^verbatim>\<open>line.split(',').map((col) => col.trim().replace(/^"|"$/g, ''))\<close>\<close>

definition parseColumns :: "jsstring \<Rightarrow> jsstring list" where
  "parseColumns line = map cleanColumn (split COMMA line)"

section \<open>extractUniqueValues\<close>

text \<open>
  A \<^verbatim>\<open>Set\<close> keeps its elements in insertion order and \<^verbatim>\<open>Array.from\<close> lists them
  in that order, so the set is a list without repetition and \<^verbatim>\<open>add\<close> appends a
  new element at the end.
\<close>

definition setAdd :: "'a \<Rightarrow> 'a list \<Rightarrow> 'a list" where
  "setAdd x xs = (if x \<in> set xs then xs else xs @ [x])"

record uniqueValues =
  categories :: "jsstring list"
  paymentMethods :: "jsstring list"

definition addIfTruthy :: "jsstring option \<Rightarrow> jsstring list \<Rightarrow> jsstring list" where
  "addIfTruthy v xs = (case v of None \<Rightarrow> xs | Some s \<Rightarrow> if s = [] then xs else setAdd s xs)"

text \<open>The body of the loop of lines 44 to 55, on the two sets.\<close>

definition scanLine :: "jsstring \<Rightarrow> uniqueValues \<Rightarrow> uniqueValues" where
  "scanLine raw acc =
     (let line = trim raw in
      if line = [] then acc
      else
        let columns = parseColumns line;
            type = element columns 1;
            paymentMethod = element columns 6
        in \<lparr>categories = addIfTruthy type (categories acc),
            paymentMethods = addIfTruthy paymentMethod (paymentMethods acc)\<rparr>)"

text \<open>
  The loop \<^verbatim>\<open>for (let i = dataStartIndex + 1; i < lines.length; i++)\<close> visits the
  lines after the header in order: a left fold over them.
\<close>

definition scanLines :: "jsstring list \<Rightarrow> uniqueValues \<Rightarrow> uniqueValues" where
  "scanLines ls acc = foldl (\<lambda>a l. scanLine l a) acc ls"

definition extractUniqueValues :: "jsstring \<Rightarrow> uniqueValues" where
  "extractUniqueValues csvContent =
     (let lines = split LF csvContent;
          dataStartIndex = findIndex (\<lambda>line. strIncludes line HEADER_MARKER) lines
      in if dataStartIndex = -1 then \<lparr>categories = [], paymentMethods = []\<rparr>
         else scanLines (drop (nat (dataStartIndex + 1)) lines)
                \<lparr>categories = [], paymentMethods = []\<rparr>)"

section \<open>getDatabaseProperties\<close>

record selectOption =
  name :: jsstring

datatype propertyConfig =
    TitleConfig
  | DateConfig
  | SelectConfig (options: "selectOption list")
  | RichTextConfig
  | NumberConfig

record databaseProperties =
  Name :: propertyConfig
  Date :: propertyConfig
  Category :: propertyConfig
  Counterparty :: propertyConfig
  Type :: propertyConfig
  Amount :: propertyConfig
  Payment_Method :: propertyConfig

definition getDatabaseProperties :: "uniqueValues \<Rightarrow> databaseProperties" where
  "getDatabaseProperties uv =
     \<lparr>Name = TitleConfig,
      Date = DateConfig,
      Category = SelectConfig
        (map (\<lambda>n. \<lparr>name = n\<rparr>) (categories uv) @ [\<lparr>name = STR_OTHER\<rparr>]),
      Counterparty = RichTextConfig,
      Type = SelectConfig [\<lparr>name = STR_INCOME\<rparr>, \<lparr>name = STR_EXPENSE\<rparr>],
      Amount = NumberConfig,
      Payment_Method = SelectConfig
        (map (\<lambda>n. \<lparr>name = n\<rparr>) (paymentMethods uv) @ [\<lparr>name = STR_UNKNOWN\<rparr>])\<rparr>"

section \<open>Amounts\<close>

text \<open>
  \<^verbatim>\<open>amountStr.replace(/[\u00A5\s,]/g, '')\<close>: the global replace removes every code unit
  of the class (the yen sign, white space, the comma) and keeps the others.
\<close>

fun normalizeAmount :: "jsstring \<Rightarrow> jsstring" where
  "normalizeAmount [] = []"
| "normalizeAmount (c # cs) =
     (if c = YEN \<or> isWhiteSpace c \<or> c = COMMA then normalizeAmount cs
      else c # normalizeAmount cs)"

text \<open>
  A JavaScript number, as far as this program looks at it: not-a-number, the
  infinities that the text \<^verbatim>\<open>Infinity\<close> gives, or \<open>Num r\<close>, the number that the
  engine gets by rounding the exact decimal value \<open>r\<close> of a literal to a double.
  The rounding itself is not modelled; it never gives not-a-number.
\<close>

datatype jsnumber = NaN | PosInfinity | NegInfinity | Num rat

definition isDigit :: "16 word \<Rightarrow> bool" where
  "isDigit c \<longleftrightarrow> 0x30 \<le> c \<and> c \<le> 0x39"

definition digitsValue :: "jsstring \<Rightarrow> nat" where
  "digitsValue ds = foldl (\<lambda>a c. 10 * a + (unat c - 48)) 0 ds"

definition scale10 :: "rat \<Rightarrow> int \<Rightarrow> rat" where
  "scale10 x e = (if 0 \<le> e then x * 10 ^ nat e else x / 10 ^ nat (- e))"

definition PLUS :: "16 word" where "PLUS = 0x2B"
definition MINUS :: "16 word" where "MINUS = 0x2D"
definition DOT :: "16 word" where "DOT = 0x2E"
definition STR_INFINITY :: jsstring where
  "STR_INFINITY = [0x49, 0x6E, 0x66, 0x69, 0x6E, 0x69, 0x74, 0x79]"

text \<open>
  The exponent part that follows the digits of a decimal literal: \<^verbatim>\<open>e\<close> or \<^verbatim>\<open>E\<close>,
  an optional sign and at least one digit. Anything else is not part of the
  literal and the exponent is 0.
\<close>

definition exponentPart :: "jsstring \<Rightarrow> int" where
  "exponentPart s =
     (case s of
        [] \<Rightarrow> 0
      | c # cs \<Rightarrow>
          if c = 0x65 \<or> c = 0x45 then
            (let negative = (cs \<noteq> [] \<and> hd cs = MINUS);
                 hasSign = (cs \<noteq> [] \<and> (hd cs = MINUS \<or> hd cs = PLUS));
                 ds = takeWhile isDigit (if hasSign then tl cs else cs)
             in if ds = [] then 0
                else if negative then - int (digitsValue ds) else int (digitsValue ds))
          else 0)"

text \<open>
  The digits of a decimal literal after its sign: digits, an optional fraction and
  an optional exponent, with at least one digit before the exponent. What follows
  the literal is ignored. Without a digit there is no literal and the result is
  not-a-number.
\<close>

definition parseUnsignedDecimal :: "bool \<Rightarrow> jsstring \<Rightarrow> jsnumber" where
  "parseUnsignedDecimal negative afterSign =
     (let intDigits = takeWhile isDigit afterSign;
          afterInt = dropWhile isDigit afterSign;
          hasDot = (afterInt \<noteq> [] \<and> hd afterInt = DOT);
          fracDigits = (if hasDot then takeWhile isDigit (tl afterInt) else []);
          afterFrac = (if hasDot then dropWhile isDigit (tl afterInt) else afterInt)
      in if intDigits = [] \<and> fracDigits = [] then NaN
         else
           let magnitude = scale10 (of_nat (digitsValue (intDigits @ fracDigits)))
                             (exponentPart afterFrac - int (length fracDigits))
           in Num (if negative then - magnitude else magnitude))"

text \<open>
  \<^verbatim>\<open>parseFloat\<close> of ECMAScript: leading white space is dropped, then the longest
  prefix that is a StrDecimalLiteral is read: an optional sign, then
  \<^verbatim>\<open>Infinity\<close> or a decimal literal.
\<close>

definition parseFloat :: "jsstring \<Rightarrow> jsnumber" where
  "parseFloat inputString =
     (let trimmed = trimStart inputString;
          negative = (trimmed \<noteq> [] \<and> hd trimmed = MINUS);
          hasSign = (trimmed \<noteq> [] \<and> (hd trimmed = MINUS \<or> hd trimmed = PLUS));
          afterSign = (if hasSign then tl trimmed else trimmed)
      in if startsWith afterSign STR_INFINITY then
           (if negative then NegInfinity else PosInfinity)
         else parseUnsignedDecimal negative afterSign)"

section \<open>The remote service and the console\<close>

text \<open>
  A thrown value, an \<^verbatim>\<open>Error\<close> object: \<^verbatim>\<open>error.message\<close> and \<^verbatim>\<open>error.body\<close>
  (absent for an error without a body, as the errors of the engine are).
\<close>

record js_error =
  message :: jsstring
  body :: "jsstring option"

text \<open>
  The \<^verbatim>\<open>TypeError\<close> that \<^verbatim>\<open>Object.keys(undefined)\<close> throws; the message is the
  engine's text.
\<close>

definition TypeError :: js_error where
  "TypeError =
     \<lparr>message = [0x43, 0x61, 0x6E, 0x6E, 0x6F, 0x74, 0x20, 0x63, 0x6F, 0x6E, 0x76, 0x65,
                 0x72, 0x74, 0x20, 0x75, 0x6E, 0x64, 0x65, 0x66, 0x69, 0x6E, 0x65, 0x64,
                 0x20, 0x6F, 0x72, 0x20, 0x6E, 0x75, 0x6C, 0x6C, 0x20, 0x74, 0x6F, 0x20,
                 0x6F, 0x62, 0x6A, 0x65, 0x63, 0x74],
      body = None\<rparr>"

text \<open>The \<^verbatim>\<open>Error\<close> of line 182: the data section was not found.\<close>

definition NoDataSection :: js_error where
  "NoDataSection =
     \<lparr>message = [0x627E, 0x4E0D, 0x5230, 0x6570, 0x636E, 0x90E8, 0x5206], body = None\<rparr>"

text \<open>
  The answer of \<^verbatim>\<open>notion.databases.retrieve\<close>: the keys of its \<^verbatim>\<open>properties\<close>
  object, or \<open>None\<close> when the answer has no \<^verbatim>\<open>properties\<close>.
\<close>

record databaseResponse =
  properties :: "jsstring list option"

text \<open>The \<^verbatim>\<open>properties\<close> of the page that \<^verbatim>\<open>notion.pages.create\<close> receives.\<close>

record pageProperties =
  page_Name :: jsstring
  page_Date :: jsstring
  page_Category :: jsstring
  page_Counterparty :: jsstring
  page_Type :: jsstring
  page_Amount :: jsnumber
  page_Payment_Method :: jsstring

text \<open>
  The Notion client is outside the program. Each of its three operations is a
  function of the state \<open>'r\<close> of the remote service: it returns the thrown error
  (\<open>Inl\<close>) or the answer (\<open>Inr\<close>), and the next state.
\<close>

record 'r notionClient =
  databases_retrieve :: "'r \<Rightarrow> (js_error + databaseResponse) \<times> 'r"
  databases_update :: "databaseProperties \<Rightarrow> 'r \<Rightarrow> (js_error + unit) \<times> 'r"
  pages_create :: "pageProperties \<Rightarrow> 'r \<Rightarrow> (js_error + unit) \<times> 'r"

text \<open>The lines written by \<^verbatim>\<open>console.log\<close> and \<^verbatim>\<open>console.error\<close>, by source line.\<close>

datatype consoleLine =
    ErrNoCsvPath                                    \<comment> \<open>line 147\<close>
  | LogUsage                                        \<comment> \<open>line 148\<close>
  | ErrFileNotFound jsstring                        \<comment> \<open>line 155\<close>
  | LogReadingFile jsstring                         \<comment> \<open>line 160\<close>
  | LogAnalysing                                    \<comment> \<open>line 164\<close>
  | LogCategoriesFound "jsstring list"              \<comment> \<open>line 166\<close>
  | LogPaymentMethodsFound "jsstring list"          \<comment> \<open>line 167\<close>
  | LogUpdatingStructure                            \<comment> \<open>line 170\<close>
  | LogPropertiesUpdated "jsstring list"            \<comment> \<open>line 173\<close>
  | LogCurrentProperties "jsstring list"            \<comment> \<open>line 122\<close>
  | LogUpdateDone                                   \<comment> \<open>line 129\<close>
  | ErrUpdateFailed js_error                        \<comment> \<open>line 134\<close>
  | ErrInvalidDate jsstring                         \<comment> \<open>line 216\<close>
  | ErrInvalidAmount jsstring                       \<comment> \<open>line 224\<close>
  | LogImported jsstring "jsstring option" jsstring \<comment> \<open>line 247\<close>
  | ErrImportFailed jsstring                        \<comment> \<open>line 251\<close>
  | ErrFailedLine jsstring                          \<comment> \<open>line 252\<close>
  | ErrDetail jsstring                              \<comment> \<open>line 254\<close>
  | LogStatistics nat nat                           \<comment> \<open>lines 261 to 264\<close>
  | ErrProcessing js_error                          \<comment> \<open>line 266\<close>

text \<open>What a run does that can be seen from outside, in order.\<close>

datatype event =
    Retrieve "js_error + databaseResponse"
  | Update databaseProperties "js_error + unit"
  | Create pageProperties "js_error + unit"
  | Console consoleLine

record 'r world =
  remote :: 'r
  trace :: "event list"

definition console :: "consoleLine \<Rightarrow> 'r world \<Rightarrow> 'r world" where
  "console out w = w\<lparr>trace := trace w @ [Console out]\<rparr>"

definition callRetrieve ::
  "'r notionClient \<Rightarrow> 'r world \<Rightarrow> (js_error + databaseResponse) \<times> 'r world" where
  "callRetrieve api w =
     (case databases_retrieve api (remote w) of
        (res, r) \<Rightarrow> (res, \<lparr>remote = r, trace = trace w @ [Retrieve res]\<rparr>))"

definition callUpdate ::
  "'r notionClient \<Rightarrow> databaseProperties \<Rightarrow> 'r world \<Rightarrow> (js_error + unit) \<times> 'r world" where
  "callUpdate api props w =
     (case databases_update api props (remote w) of
        (res, r) \<Rightarrow> (res, \<lparr>remote = r, trace = trace w @ [Update props res]\<rparr>))"

definition callCreate ::
  "'r notionClient \<Rightarrow> pageProperties \<Rightarrow> 'r world \<Rightarrow> (js_error + unit) \<times> 'r world" where
  "callCreate api page w =
     (case pages_create api page (remote w) of
        (res, r) \<Rightarrow> (res, \<lparr>remote = r, trace = trace w @ [Create page res]\<rparr>))"

section \<open>updateDatabaseProperties\<close>

text \<open>
  The \<^verbatim>\<open>try\<close> block of lines 117 to 132. A call that throws leaves the block at
  once; \<^verbatim>\<open>Object.keys(database.properties)\<close> throws when the answer has no
  \<^verbatim>\<open>properties\<close>.
\<close>

definition updateDatabaseProperties_try ::
  "'r notionClient \<Rightarrow> databaseProperties \<Rightarrow> 'r world
     \<Rightarrow> (js_error + databaseResponse) \<times> 'r world" where
  "updateDatabaseProperties_try api props w =
     (case callRetrieve api w of
        (Inl error, w1) \<Rightarrow> (Inl error, w1)
      | (Inr database, w1) \<Rightarrow>
          (case properties database of
             None \<Rightarrow> (Inl TypeError, w1)
           | Some keys \<Rightarrow>
               (case callUpdate api props (console (LogCurrentProperties keys) w1) of
                  (Inl error, w2) \<Rightarrow> (Inl error, w2)
                | (Inr u, w2) \<Rightarrow> callRetrieve api (console LogUpdateDone w2))))"

text \<open>The \<^verbatim>\<open>catch\<close> block of lines 133 to 136 logs the error and throws it again.\<close>

definition updateDatabaseProperties ::
  "'r notionClient \<Rightarrow> databaseProperties \<Rightarrow> 'r world
     \<Rightarrow> (js_error + databaseResponse) \<times> 'r world" where
  "updateDatabaseProperties api props w =
     (case updateDatabaseProperties_try api props w of
        (Inl error, w1) \<Rightarrow> (Inl error, console (ErrUpdateFailed error) w1)
      | (Inr database, w1) \<Rightarrow> (Inr database, w1))"

section \<open>main\<close>

text \<open>
  What \<^verbatim>\<open>main\<close> needs from outside the program: the Notion client, the date parser
  of the engine (\<^verbatim>\<open>new Date(s)\<close>: \<open>None\<close> for an invalid date, otherwise the text
  that \<^verbatim>\<open>toISOString\<close> gives), \<^verbatim>\<open>path.resolve\<close>, \<^verbatim>\<open>fs.existsSync\<close> and
  \<^verbatim>\<open>fs.readFileSync\<close> (the thrown error, or the text of the file).
\<close>

record 'r env =
  notion :: "'r notionClient"
  dateParse :: "jsstring \<Rightarrow> jsstring option"
  pathResolve :: "jsstring \<Rightarrow> jsstring"
  existsSync :: "jsstring \<Rightarrow> bool"
  readFileSync :: "jsstring \<Rightarrow> js_error + jsstring"

record 'r importState =
  world :: "'r world"
  successCount :: nat
  failureCount :: nat

text \<open>
  The \<^verbatim>\<open>properties\<close> of lines 232 to 244, from the destructured columns, the
  text of \<^verbatim>\<open>dateValue.toISOString()\<close> and the parsed amount.
\<close>

definition newPage ::
  "jsstring option \<Rightarrow> jsstring \<Rightarrow> jsstring option \<Rightarrow> jsstring option \<Rightarrow> jsstring option
     \<Rightarrow> jsnumber \<Rightarrow> jsstring option \<Rightarrow> pageProperties" where
  "newPage description isoString type counterparty transactionType amount paymentMethod =
     \<lparr>page_Name = orElse description STR_NO_NAME,
      page_Date = isoString,
      page_Category = orElse type STR_OTHER,
      page_Counterparty = orElse counterparty STR_UNKNOWN,
      page_Type = orElse transactionType STR_EXPENSE,
      page_Amount = amount,
      page_Payment_Method = orElse paymentMethod STR_UNKNOWN\<rparr>"

text \<open>
  The body of the loop of lines 189 to 258 for the line \<^verbatim>\<open>lines[i]\<close>. Every
  \<^verbatim>\<open>continue\<close> returns the state for the next line.
\<close>

definition importLine :: "'r env \<Rightarrow> jsstring \<Rightarrow> 'r importState \<Rightarrow> 'r importState" where
  "importLine env raw st =
     (let line = trim raw in
      if line = [] then st
      else
        let columns = parseColumns line;
            dateStr = element columns 0;
            type = element columns 1;
            counterparty = element columns 2;
            description = element columns 3;
            transactionType = element columns 4;
            amountStr = element columns 5;
            paymentMethod = element columns 6
        in
          if \<not> truthy dateStr \<or> \<not> truthy amountStr then st
          else
            (case (dateStr, amountStr) of
               (Some d, Some a) \<Rightarrow>
                 (case dateParse env d of
                    None \<Rightarrow>
                      st\<lparr>world := console (ErrInvalidDate d) (world st),
                         failureCount := failureCount st + 1\<rparr>
                  | Some isoString \<Rightarrow>
                      let amount = parseFloat (normalizeAmount a) in
                      if amount = NaN then
                        st\<lparr>world := console (ErrInvalidAmount a) (world st),
                           failureCount := failureCount st + 1\<rparr>
                      else
                        (case callCreate (notion env)
                                (newPage description isoString type counterparty
                                   transactionType amount paymentMethod)
                                (world st) of
                           (Inr u, w1) \<Rightarrow>
                             st\<lparr>world := console (LogImported d description a) w1,
                                successCount := successCount st + 1\<rparr>
                         | (Inl error, w1) \<Rightarrow>
                             let w2 = console (ErrFailedLine line)
                                        (console (ErrImportFailed (message error)) w1);
                                 w3 = (case body error of
                                         None \<Rightarrow> w2
                                       | Some b \<Rightarrow>
                                           if b = [] then w2 else console (ErrDetail b) w2)
                             in st\<lparr>world := w3, failureCount := failureCount st + 1\<rparr>))
             | _ \<Rightarrow> st))"

text \<open>The loop over the lines after the header, in order.\<close>

fun importLines :: "'r env \<Rightarrow> jsstring list \<Rightarrow> 'r importState \<Rightarrow> 'r importState" where
  "importLines env [] st = st"
| "importLines env (raw # rest) st = importLines env rest (importLine env raw st)"

text \<open>How a run of \<^verbatim>\<open>main\<close> ends: \<^verbatim>\<open>process.exit(code)\<close>, or \<^verbatim>\<open>main\<close> returns.\<close>

datatype completion = Exited nat | Returned

text \<open>
  The \<^verbatim>\<open>try\<close> block of lines 144 to 264. \<open>csvPath\<close> is \<^verbatim>\<open>process.argv[2]\<close>,
  \<open>None\<close> when the argument is missing.
\<close>

definition main_try ::
  "'r env \<Rightarrow> jsstring option \<Rightarrow> 'r world \<Rightarrow> (js_error + completion) \<times> 'r world" where
  "main_try env csvPath w =
     (case csvPath of
        None \<Rightarrow> (Inr (Exited 1), console LogUsage (console ErrNoCsvPath w))
      | Some p \<Rightarrow>
          if p = [] then (Inr (Exited 1), console LogUsage (console ErrNoCsvPath w))
          else
            let absolutePath = pathResolve env p in
            if \<not> existsSync env absolutePath
            then (Inr (Exited 1), console (ErrFileNotFound absolutePath) w)
            else
            (case readFileSync env absolutePath of
               Inl error \<Rightarrow> (Inl error, console (LogReadingFile absolutePath) w)
             | Inr csvContent \<Rightarrow>
                 let w1 = console LogAnalysing (console (LogReadingFile absolutePath) w);
                     uniqueValues = extractUniqueValues csvContent;
                     w2 = console (LogPaymentMethodsFound (paymentMethods uniqueValues))
                            (console (LogCategoriesFound (categories uniqueValues)) w1);
                     w3 = console LogUpdatingStructure w2;
                     properties = getDatabaseProperties uniqueValues
                 in
                   (case updateDatabaseProperties (notion env) properties w3 of
                      (Inl error, w4) \<Rightarrow> (Inl error, w4)
                    | (Inr database, w4) \<Rightarrow>
                        (case databaseResponse.properties database of
                           None \<Rightarrow> (Inl TypeError, w4)
                         | Some keys \<Rightarrow>
                             let w5 = console (LogPropertiesUpdated keys) w4;
                                 lines = split LF csvContent;
                                 dataStartIndex =
                                   findIndex (\<lambda>line. strIncludes line HEADER_MARKER) lines
                             in
                               if dataStartIndex = -1 then (Inl NoDataSection, w5)
                               else
                                 let st = importLines env
                                            (drop (nat (dataStartIndex + 1)) lines)
                                            \<lparr>world = w5, successCount = 0, failureCount = 0\<rparr>
                                 in (Inr Returned,
                                     console (LogStatistics (successCount st) (failureCount st))
                                       (world st))))))"

text \<open>The \<^verbatim>\<open>catch\<close> block of lines 265 to 267 logs the error; \<^verbatim>\<open>main\<close> returns.\<close>

definition main :: "'r env \<Rightarrow> jsstring option \<Rightarrow> 'r world \<Rightarrow> completion \<times> 'r world" where
  "main env csvPath w =
     (case main_try env csvPath w of
        (Inl error, w1) \<Rightarrow> (Returned, console (ErrProcessing error) w1)
      | (Inr c, w1) \<Rightarrow> (c, w1))"

section \<open>Reading a trace\<close>

text \<open>The events that a step added to the trace.\<close>

definition newEvents :: "'r world \<Rightarrow> 'r world \<Rightarrow> event list" where
  "newEvents w w' = drop (length (trace w)) (trace w')"

text \<open>The error of a schema call (retrieve or update) that failed.\<close>

fun failedSchemaCall :: "event \<Rightarrow> js_error option" where
  "failedSchemaCall (Retrieve (Inl e)) = Some e"
| "failedSchemaCall (Update props (Inl e)) = Some e"
| "failedSchemaCall ev = None"

fun isCreate :: "event \<Rightarrow> bool" where
  "isCreate (Create page res) \<longleftrightarrow> True"
| "isCreate ev \<longleftrightarrow> False"

section \<open>Example environments\<close>

text \<open>
  Environments on which the program is run on concrete inputs. The state of the
  example service is the number of pages created so far.
\<close>

definition acceptingNotion :: "nat notionClient" where
  "acceptingNotion =
     \<lparr>databases_retrieve = (\<lambda>r. (Inr \<lparr>properties = Some []\<rparr>, r)),
      databases_update = (\<lambda>props r. (Inr (), r)),
      pages_create = (\<lambda>page r. (Inr (), Suc r))\<rparr>"

definition exampleError :: js_error where
  "exampleError = \<lparr>message = [0x34, 0x30, 0x30], body = None\<rparr>"

text \<open>A service whose update call fails.\<close>

definition updateFailingNotion :: "nat notionClient" where
  "updateFailingNotion = acceptingNotion\<lparr>databases_update := (\<lambda>props r. (Inl exampleError, r))\<rparr>"

text \<open>
  A date parser for the examples: a text of four digits is a year, as in
  \<^verbatim>\<open>new Date('2024').toISOString()\<close>, which is \<^verbatim>\<open>'2024-01-01T00:00:00.000Z'\<close>; every
  other text is an invalid date.
\<close>

definition yearDateParse :: "jsstring \<Rightarrow> jsstring option" where
  "yearDateParse s =
     (if length s = 4 \<and> list_all isDigit s
      then Some (s @ [0x2D, 0x30, 0x31, 0x2D, 0x30, 0x31, 0x54, 0x30, 0x30, 0x3A, 0x30, 0x30,
                      0x3A, 0x30, 0x30, 0x2E, 0x30, 0x30, 0x30, 0x5A])
      else None)"

text \<open>One file, \<^verbatim>\<open>bill.csv\<close>, with the given content.\<close>

definition exampleEnv :: "nat notionClient \<Rightarrow> jsstring \<Rightarrow> nat env" where
  "exampleEnv api csvContent =
     \<lparr>notion = api,
      dateParse = yearDateParse,
      pathResolve = (\<lambda>p. p),
      existsSync = (\<lambda>p. p = [0x62, 0x69, 0x6C, 0x6C, 0x2E, 0x63, 0x73, 0x76]),
      readFileSync = (\<lambda>p. Inr csvContent)\<rparr>"

definition emptyWorld :: "nat world" where
  "emptyWorld = \<lparr>remote = 0, trace = []\<rparr>"

definition startState :: "nat importState" where
  "startState = \<lparr>world = emptyWorld, successCount = 0, failureCount = 0\<rparr>"

text \<open>
  The rule of the specification for a field, to compare with \<open>cleanColumn\<close>: after
  the trim, the leading and the trailing quote are removed only when both are
  present.
\<close>

definition spec_cleanColumn :: "jsstring \<Rightarrow> jsstring" where
  "spec_cleanColumn col =
     (let t = trim col
      in if 2 \<le> length t \<and> hd t = QUOTE \<and> last t = QUOTE then butlast (tl t) else t)"

section \<open>Decimal literals\<close>








section \<open>Evaluation on concrete inputs\<close>

lemmas line_eval = trim_def isWhiteSpace_def parseColumns_def COMMA_def cleanColumn_def
  replaceQuotes_def QUOTE_def element_def

lemmas extract_eval = extractUniqueValues_def HEADER_MARKER_def LF_def startsWith_def
  scanLines_def scanLine_def addIfTruthy_def setAdd_def

lemmas amount_eval = parseFloat_def parseUnsignedDecimal_def trimStart_def isWhiteSpace_def
  startsWith_def MINUS_def PLUS_def STR_INFINITY_def isDigit_def DOT_def digitsValue_def
  scale10_def exponentPart_def YEN_def COMMA_def

lemmas env_eval = exampleEnv_def acceptingNotion_def updateFailingNotion_def
  yearDateParse_def startState_def emptyWorld_def exampleError_def
  callCreate_def callRetrieve_def callUpdate_def console_def newEvents_def

section \<open>Schema options\<close>

lemma distinct_setAdd: "distinct xs \<Longrightarrow> distinct (setAdd x xs)"
  by (simp add: setAdd_def)

lemma distinct_addIfTruthy: "distinct xs \<Longrightarrow> distinct (addIfTruthy v xs)"
  by (simp add: addIfTruthy_def distinct_setAdd split: option.splits)

lemma scanLine_distinct:
  "distinct (categories acc) \<and> distinct (paymentMethods acc) \<Longrightarrow>
   distinct (categories (scanLine l acc)) \<and> distinct (paymentMethods (scanLine l acc))"
  by (simp add: scanLine_def Let_def distinct_addIfTruthy)

lemma scanLines_distinct:
  "distinct (categories acc) \<and> distinct (paymentMethods acc) \<Longrightarrow>
   distinct (categories (scanLines ls acc)) \<and> distinct (paymentMethods (scanLines ls acc))"
  unfolding scanLines_def
proof (induction ls arbitrary: acc)
  case Nil
  then show ?case by simp
next
  case (Cons l ls)
  from scanLine_distinct [OF Cons.prems] show ?case
    using Cons.IH by simp
qed

text \<open>The two arrays that \<open>extractUniqueValues\<close> returns come from sets: no value twice.\<close>

lemma extractUniqueValues_distinct:
  "distinct (categories (extractUniqueValues csvContent)) \<and>
   distinct (paymentMethods (extractUniqueValues csvContent))"
  by (simp add: extractUniqueValues_def Let_def scanLines_distinct)

lemma distinct_map_option: "distinct (map (\<lambda>n. \<lparr>name = n\<rparr>) xs) \<longleftrightarrow> distinct xs"
  by (simp add: distinct_map inj_on_def)

lemma option_in_image: "\<lparr>name = d\<rparr> \<in> (\<lambda>n. \<lparr>name = n\<rparr>) ` A \<longleftrightarrow> d \<in> A"
  by auto

text \<open>
  Claim C1, as amended. For every file text, the options that
  \<open>getDatabaseProperties\<close> builds from the inferred values for the category field
  are the inferred categories in order followed by the fallback \<open>STR_OTHER\<close>, and
  those for the payment method field are the inferred methods followed by
  \<open>STR_UNKNOWN\<close>. The fallback is appended also when it is among the inferred values:
  an option list is free of duplicates exactly when the inferred values do not
  contain its fallback label.
\<close>

theorem getDatabaseProperties_options:
  "Category (getDatabaseProperties (extractUniqueValues csvContent)) =
     SelectConfig (map (\<lambda>n. \<lparr>name = n\<rparr>) (categories (extractUniqueValues csvContent))
                   @ [\<lparr>name = STR_OTHER\<rparr>]) \<and>
   Payment_Method (getDatabaseProperties (extractUniqueValues csvContent)) =
     SelectConfig (map (\<lambda>n. \<lparr>name = n\<rparr>) (paymentMethods (extractUniqueValues csvContent))
                   @ [\<lparr>name = STR_UNKNOWN\<rparr>]) \<and>
   (distinct (options (Category (getDatabaseProperties (extractUniqueValues csvContent)))) \<longleftrightarrow>
      STR_OTHER \<notin> set (categories (extractUniqueValues csvContent))) \<and>
   (distinct (options (Payment_Method (getDatabaseProperties (extractUniqueValues csvContent))))
      \<longleftrightarrow> STR_UNKNOWN \<notin> set (paymentMethods (extractUniqueValues csvContent)))"
  using extractUniqueValues_distinct [of csvContent]
  by (simp add: getDatabaseProperties_def distinct_map_option option_in_image)

text \<open>
  Two rows with the categories of scenario 4 (dining, transport): the options are
  these two and \<open>STR_OTHER\<close>, without duplicates.
\<close>

theorem getDatabaseProperties_options_witness:
  "Category (getDatabaseProperties (extractUniqueValues
     (HEADER_MARKER @ [LF, 0x31, 0x2C, 0x9910, 0x996E, 0x7F8E, 0x98DF,
                       LF, 0x32, 0x2C, 0x4EA4, 0x901A, 0x51FA, 0x884C]))) =
     SelectConfig [\<lparr>name = [0x9910, 0x996E, 0x7F8E, 0x98DF]\<rparr>,
                   \<lparr>name = [0x4EA4, 0x901A, 0x51FA, 0x884C]\<rparr>,
                   \<lparr>name = STR_OTHER\<rparr>] \<and>
   distinct (options (Category (getDatabaseProperties (extractUniqueValues
     (HEADER_MARKER @ [LF, 0x31, 0x2C, 0x9910, 0x996E, 0x7F8E, 0x98DF,
                       LF, 0x32, 0x2C, 0x4EA4, 0x901A, 0x51FA, 0x884C])))))"
  using getDatabaseProperties_options
    [of "HEADER_MARKER @ [LF, 0x31, 0x2C, 0x9910, 0x996E, 0x7F8E, 0x98DF,
                          LF, 0x32, 0x2C, 0x4EA4, 0x901A, 0x51FA, 0x884C]"]
  by (simp add: extract_eval line_eval STR_OTHER_def)

text \<open>
  The claim as stated fails: a row whose category is \<open>STR_OTHER\<close> puts the fallback
  label among the inferred values, and the option list then holds it twice.
\<close>

theorem getDatabaseProperties_options_duplicate:
  "options (Category (getDatabaseProperties
     (extractUniqueValues (HEADER_MARKER @ [LF, 0x31, 0x2C, 0x5176, 0x4ED6])))) =
     [\<lparr>name = STR_OTHER\<rparr>, \<lparr>name = STR_OTHER\<rparr>] \<and>
   \<not> distinct (options (Category (getDatabaseProperties
     (extractUniqueValues (HEADER_MARKER @ [LF, 0x31, 0x2C, 0x5176, 0x4ED6])))))"
  by (simp add: getDatabaseProperties_def extract_eval line_eval STR_OTHER_def)

section \<open>Fields of a data line\<close>

lemma replaceQuotesFrom_False:
  "replaceQuotesFrom False s = (if s \<noteq> [] \<and> last s = QUOTE then butlast s else s)"
  by (induction s) auto

text \<open>
  Claim C2, as amended. For every field text the parser trims the surrounding
  white space, then removes a leading quote when there is one and a trailing
  quote when there is one, each without regard to the other: a field with a quote
  at one end only loses that quote.
\<close>

theorem cleanColumn_strips_each_quote:
  "cleanColumn col =
     (let t = trim col;
          t1 = (if t \<noteq> [] \<and> hd t = QUOTE then tl t else t)
      in if t1 \<noteq> [] \<and> last t1 = QUOTE then butlast t1 else t1)"
proof (cases "trim col")
  case Nil
  then show ?thesis by (simp add: cleanColumn_def replaceQuotes_def)
next
  case (Cons c cs)
  then show ?thesis
    by (simp add: cleanColumn_def replaceQuotes_def replaceQuotesFrom_False Let_def)
qed

text \<open>The field \<^verbatim>\<open> "ab" \<close> loses both quotes, the field \<^verbatim>\<open>ab"\<close> its only one.\<close>

theorem cleanColumn_strips_each_quote_witness:
  "cleanColumn [0x20, 0x22, 0x61, 0x62, 0x22, 0x20] = [0x61, 0x62] \<and>
   cleanColumn [0x61, 0x62, 0x22] = [0x61, 0x62]"
  using cleanColumn_strips_each_quote [of "[0x20, 0x22, 0x61, 0x62, 0x22, 0x20]"]
    cleanColumn_strips_each_quote [of "[0x61, 0x62, 0x22]"]
  by (simp add: trim_def isWhiteSpace_def QUOTE_def)

text \<open>
  The claim as stated fails: the field \<^verbatim>\<open>"a\<close> has a leading quote only, the rule of
  the specification keeps it, the parser removes it.
\<close>

theorem cleanColumn_unbalanced_quote:
  "cleanColumn [0x22, 0x61] = [0x61] \<and> spec_cleanColumn [0x22, 0x61] = [0x22, 0x61]"
  by (simp add: cleanColumn_def spec_cleanColumn_def replaceQuotes_def trim_def
        isWhiteSpace_def QUOTE_def)

section \<open>Extraction without a header\<close>

lemma findIndex_ge: "- 1 \<le> findIndex p xs"
  by (induction xs) (auto simp: Let_def)

lemma findIndex_none: "findIndex p xs = - 1 \<longleftrightarrow> (\<forall>x\<in>set xs. \<not> p x)"
proof (induction xs)
  case Nil
  then show ?case by simp
next
  case (Cons x xs)
  have "findIndex p xs + 1 \<noteq> - 1" using findIndex_ge [of p xs] by arith
  with Cons show ?case by (auto simp: Let_def)
qed

text \<open>
  Claim C7. For every file text of which no line contains the header marker
  \<open>HEADER_MARKER\<close>, \<open>extractUniqueValues\<close> returns an empty category collection
  and an empty payment method collection.
\<close>

theorem extractUniqueValues_no_header:
  assumes "\<forall>line\<in>set (split LF csvContent). \<not> strIncludes line HEADER_MARKER"
  shows "extractUniqueValues csvContent = \<lparr>categories = [], paymentMethods = []\<rparr>"
proof -
  from assms
  have "findIndex (\<lambda>line. strIncludes line HEADER_MARKER) (split LF csvContent) = - 1"
    by (simp add: findIndex_none)
  then show ?thesis by (simp add: extractUniqueValues_def)
qed

text \<open>The text \<^verbatim>\<open>a,b,,,,,c\<close> on its second line has no header line before it.\<close>

theorem extractUniqueValues_no_header_witness:
  "list_all (\<lambda>line. \<not> strIncludes line HEADER_MARKER)
     (split LF [0x78, 0x0A, 0x61, 0x2C, 0x62, 0x2C, 0x2C, 0x2C, 0x2C, 0x2C, 0x63]) \<and>
   extractUniqueValues [0x78, 0x0A, 0x61, 0x2C, 0x62, 0x2C, 0x2C, 0x2C, 0x2C, 0x2C, 0x63] =
     \<lparr>categories = [], paymentMethods = []\<rparr>"
  using extractUniqueValues_no_header
    [of "[0x78, 0x0A, 0x61, 0x2C, 0x62, 0x2C, 0x2C, 0x2C, 0x2C, 0x2C, 0x63]"]
  by (simp add: LF_def HEADER_MARKER_def startsWith_def)

section \<open>Amount normalization\<close>

text \<open>
  Claim C9. Amount normalization is idempotent on clean text: for every text \<open>x\<close>
  without a yen sign, white space or a comma, \<open>normalizeAmount x = x\<close>, and so
  normalizing twice gives what normalizing once gives.
\<close>

theorem normalizeAmount_clean:
  assumes "\<forall>c\<in>set x. c \<noteq> YEN \<and> \<not> isWhiteSpace c \<and> c \<noteq> COMMA"
  shows "normalizeAmount x = x \<and> normalizeAmount (normalizeAmount x) = normalizeAmount x"
proof -
  from assms have "normalizeAmount x = x" by (induction x) auto
  then show ?thesis by simp
qed

text \<open>The text \<^verbatim>\<open>25.50\<close>.\<close>

theorem normalizeAmount_clean_witness:
  "list_all (\<lambda>c. c \<noteq> YEN \<and> \<not> isWhiteSpace c \<and> c \<noteq> COMMA) [0x32, 0x35, 0x2E, 0x35, 0x30] \<and>
   normalizeAmount [0x32, 0x35, 0x2E, 0x35, 0x30] = [0x32, 0x35, 0x2E, 0x35, 0x30] \<and>
   normalizeAmount (normalizeAmount [0x32, 0x35, 0x2E, 0x35, 0x30]) =
     normalizeAmount [0x32, 0x35, 0x2E, 0x35, 0x30]"
  using normalizeAmount_clean [of "[0x32, 0x35, 0x2E, 0x35, 0x30]"]
  by (simp add: YEN_def COMMA_def isWhiteSpace_def)

section \<open>Schema inference\<close>

lemma addIfTruthy_mono: "set xs \<subseteq> set (addIfTruthy v xs)"
  by (auto simp: addIfTruthy_def setAdd_def split: option.splits)

lemma addIfTruthy_mem: "t \<noteq> [] \<Longrightarrow> t \<in> set (addIfTruthy (Some t) xs)"
  by (simp add: addIfTruthy_def setAdd_def)

lemma scanLine_mono:
  "set (categories acc) \<subseteq> set (categories (scanLine l acc)) \<and>
   set (paymentMethods acc) \<subseteq> set (paymentMethods (scanLine l acc))"
  by (simp add: scanLine_def Let_def addIfTruthy_mono)

lemma scanLines_mono:
  "set (categories acc) \<subseteq> set (categories (scanLines ls acc)) \<and>
   set (paymentMethods acc) \<subseteq> set (paymentMethods (scanLines ls acc))"
  unfolding scanLines_def
proof (induction ls arbitrary: acc)
  case Nil
  show ?case by simp
next
  case (Cons l ls)
  from Cons.IH [of "scanLine l acc"] scanLine_mono [of acc l]
  show ?case by auto
qed

lemma scanLine_adds:
  assumes "trim l \<noteq> []"
  shows "(element (parseColumns (trim l)) 1 = Some t \<and> t \<noteq> [] \<longrightarrow>
            t \<in> set (categories (scanLine l acc))) \<and>
         (element (parseColumns (trim l)) 6 = Some m \<and> m \<noteq> [] \<longrightarrow>
            m \<in> set (paymentMethods (scanLine l acc)))"
  using assms by (simp add: scanLine_def Let_def addIfTruthy_mem)

lemma scanLines_adds:
  assumes "l \<in> set ls" and "trim l \<noteq> []"
  shows "(element (parseColumns (trim l)) 1 = Some t \<and> t \<noteq> [] \<longrightarrow>
            t \<in> set (categories (scanLines ls acc))) \<and>
         (element (parseColumns (trim l)) 6 = Some m \<and> m \<noteq> [] \<longrightarrow>
            m \<in> set (paymentMethods (scanLines ls acc)))"
  using assms(1)
proof (induction ls arbitrary: acc)
  case Nil
  then show ?case by simp
next
  case (Cons x xs)
  have step: "scanLines (x # xs) acc = scanLines xs (scanLine x acc)"
    by (simp add: scanLines_def)
  show ?case
  proof (cases "l = x")
    case True
    then have "scanLines (x # xs) acc = scanLines xs (scanLine l acc)"
      by (simp add: scanLines_def)
    with scanLine_adds [OF assms(2), of t acc m] scanLines_mono [of "scanLine l acc" xs]
    show ?thesis by auto
  next
    case False
    with Cons.prems have "l \<in> set xs" by simp
    from Cons.IH [OF this, of "scanLine x acc"] show ?thesis unfolding step .
  qed
qed

text \<open>
  Claim C8. Schema inference does not look at the date or the amount: for every
  non-empty line after the header line, its category field, when not empty, is in
  the category collection that \<open>extractUniqueValues\<close> returns, and its payment
  method field, when not empty, is in the payment method collection. Nothing is
  assumed of the other fields of the line, so this holds also for a line that the
  import skips or counts as failed.
\<close>

theorem extractUniqueValues_ignores_validity:
  assumes "lines = split LF csvContent"
    and "h = findIndex (\<lambda>line. strIncludes line HEADER_MARKER) lines"
    and "h \<noteq> - 1"
    and "h < int i" and "i < length lines"
    and "trim (lines ! i) \<noteq> []"
    and "columns = parseColumns (trim (lines ! i))"
  shows "(\<forall>t. element columns 1 = Some t \<and> t \<noteq> [] \<longrightarrow>
              t \<in> set (categories (extractUniqueValues csvContent))) \<and>
         (\<forall>m. element columns 6 = Some m \<and> m \<noteq> [] \<longrightarrow>
              m \<in> set (paymentMethods (extractUniqueValues csvContent)))"
proof -
  let ?rows = "drop (nat (h + 1)) lines"
  have ex: "extractUniqueValues csvContent =
              scanLines ?rows \<lparr>categories = [], paymentMethods = []\<rparr>"
    using assms(1-3) by (simp add: extractUniqueValues_def Let_def)
  from assms(4,5) have "nat (h + 1) \<le> i" by arith
  then have "lines ! i = ?rows ! (i - nat (h + 1))" using assms(5) by simp
  moreover have "i - nat (h + 1) < length ?rows" using assms(4,5) by simp
  ultimately have mem: "lines ! i \<in> set ?rows" by (metis nth_mem)
  from scanLines_adds [OF mem assms(6)] show ?thesis
    unfolding ex assms(7) by blast
qed

text \<open>
  The line \<^verbatim>\<open>,C,,,,a,M\<close> after the header (with one code unit \<open>C\<close> as category
  and one code unit \<open>M\<close> as payment method) has no timestamp and the amount text
  \<^verbatim>\<open>a\<close>: the import skips it, and its category and payment method are inferred.
\<close>

theorem extractUniqueValues_ignores_validity_witness:
  "findIndex (\<lambda>line. strIncludes line HEADER_MARKER)
     (split LF (HEADER_MARKER @ [LF, 0x2C, 0x9910, 0x2C, 0x2C, 0x2C, 0x2C, 0x61, 0x2C, 0x96F6]))
     = 0 \<and>
   parseColumns (trim
     (split LF (HEADER_MARKER @ [LF, 0x2C, 0x9910, 0x2C, 0x2C, 0x2C, 0x2C, 0x61, 0x2C, 0x96F6])
        ! 1)) = [[], [0x9910], [], [], [], [0x61], [0x96F6]] \<and>
   importLine (exampleEnv acceptingNotion [])
     (split LF (HEADER_MARKER @ [LF, 0x2C, 0x9910, 0x2C, 0x2C, 0x2C, 0x2C, 0x61, 0x2C, 0x96F6])
        ! 1) startState = startState \<and>
   [0x9910] \<in> set (categories (extractUniqueValues
       (HEADER_MARKER @ [LF, 0x2C, 0x9910, 0x2C, 0x2C, 0x2C, 0x2C, 0x61, 0x2C, 0x96F6]))) \<and>
   [0x96F6] \<in> set (paymentMethods (extractUniqueValues
       (HEADER_MARKER @ [LF, 0x2C, 0x9910, 0x2C, 0x2C, 0x2C, 0x2C, 0x61, 0x2C, 0x96F6])))"
  using extractUniqueValues_ignores_validity
    [of "split LF (HEADER_MARKER @ [LF, 0x2C, 0x9910, 0x2C, 0x2C, 0x2C, 0x2C, 0x61, 0x2C, 0x96F6])"
        "HEADER_MARKER @ [LF, 0x2C, 0x9910, 0x2C, 0x2C, 0x2C, 0x2C, 0x61, 0x2C, 0x96F6]"
        0 1 "[[], [0x9910], [], [], [], [0x61], [0x96F6]]"]
  by (simp add: HEADER_MARKER_def LF_def startsWith_def line_eval importLine_def)

section \<open>Rows of the import\<close>

text \<open>
  Claim C4. For every non-empty data line whose timestamp text or amount text is
  absent (no such column, or an empty one), the loop body returns the state as it
  was: both counters, the trace (so no create call) and the remote service are
  unchanged.
\<close>

theorem importLine_skips_absent_fields:
  assumes "trim raw \<noteq> []"
    and "\<not> truthy (element (parseColumns (trim raw)) 0) \<or>
         \<not> truthy (element (parseColumns (trim raw)) 5)"
  shows "importLine env raw st = st"
  using assms by (simp add: importLine_def Let_def)

text \<open>The line \<^verbatim>\<open>2024,x\<close> has two columns: there is no amount text.\<close>

theorem importLine_skips_absent_fields_witness:
  "trim [0x32, 0x30, 0x32, 0x34, 0x2C, 0x78] \<noteq> [] \<and>
   \<not> truthy (element (parseColumns (trim [0x32, 0x30, 0x32, 0x34, 0x2C, 0x78])) 5) \<and>
   importLine (exampleEnv acceptingNotion []) [0x32, 0x30, 0x32, 0x34, 0x2C, 0x78] startState
     = startState"
  using importLine_skips_absent_fields
    [of "[0x32, 0x30, 0x32, 0x34, 0x2C, 0x78]" "exampleEnv acceptingNotion []" startState]
  by (simp add: line_eval)

text \<open>
  Claim C5, as amended. For every row whose timestamp text and amount text are
  both present and whose amount text, after normalization, parses as
  not-a-number, the row is counted as failed: the failure counter goes up by one,
  the success counter and the remote service are unchanged, the only new event
  is one console line (so no create call), and the loop goes on with the next
  line. The line logged is the amount text when the timestamp parses as a date,
  and the timestamp text when it does not.
\<close>

theorem importLine_invalid_amount:
  assumes "trim raw \<noteq> []"
    and "element (parseColumns (trim raw)) 0 = Some d" and "d \<noteq> []"
    and "element (parseColumns (trim raw)) 5 = Some a" and "a \<noteq> []"
    and "parseFloat (normalizeAmount a) = NaN"
  shows "importLine env raw st =
           st\<lparr>world := console (if dateParse env d = None then ErrInvalidDate d
                                 else ErrInvalidAmount a) (world st),
              failureCount := failureCount st + 1\<rparr> \<and>
         importLines env (raw # rest) st =
           importLines env rest
             (st\<lparr>world := console (if dateParse env d = None then ErrInvalidDate d
                                    else ErrInvalidAmount a) (world st),
                 failureCount := failureCount st + 1\<rparr>)"
  using assms by (simp add: importLine_def Let_def split: option.splits)

text \<open>The line \<^verbatim>\<open>2024,,,,,abc\<close>.\<close>

theorem importLine_invalid_amount_witness:
  "element (parseColumns (trim [0x32, 0x30, 0x32, 0x34, 0x2C, 0x2C, 0x2C, 0x2C, 0x2C,
                                0x61, 0x62, 0x63])) 0 = Some [0x32, 0x30, 0x32, 0x34] \<and>
   element (parseColumns (trim [0x32, 0x30, 0x32, 0x34, 0x2C, 0x2C, 0x2C, 0x2C, 0x2C,
                                0x61, 0x62, 0x63])) 5 = Some [0x61, 0x62, 0x63] \<and>
   parseFloat (normalizeAmount [0x61, 0x62, 0x63]) = NaN \<and>
   importLine (exampleEnv acceptingNotion [])
     [0x32, 0x30, 0x32, 0x34, 0x2C, 0x2C, 0x2C, 0x2C, 0x2C, 0x61, 0x62, 0x63] startState =
     \<lparr>world = \<lparr>remote = 0, trace = [Console (ErrInvalidAmount [0x61, 0x62, 0x63])]\<rparr>,
      successCount = 0, failureCount = 1\<rparr>"
  using importLine_invalid_amount
    [of "[0x32, 0x30, 0x32, 0x34, 0x2C, 0x2C, 0x2C, 0x2C, 0x2C, 0x61, 0x62, 0x63]"
        "[0x32, 0x30, 0x32, 0x34]" "[0x61, 0x62, 0x63]" "exampleEnv acceptingNotion []"
        startState "[]"]
  by (simp add: line_eval amount_eval env_eval)

text \<open>
  The claim as stated fails: the line \<^verbatim>\<open>,,,,,abc\<close> has the amount text \<^verbatim>\<open>abc\<close>,
  which parses as not-a-number, and no timestamp text. The loop skips it before
  it looks at the amount, and the failure counter stays as it was.
\<close>

theorem importLine_invalid_amount_skipped:
  "element (parseColumns (trim [0x2C, 0x2C, 0x2C, 0x2C, 0x2C, 0x61, 0x62, 0x63])) 5 =
     Some [0x61, 0x62, 0x63] \<and>
   parseFloat (normalizeAmount [0x61, 0x62, 0x63]) = NaN \<and>
   importLine (exampleEnv acceptingNotion [])
     [0x2C, 0x2C, 0x2C, 0x2C, 0x2C, 0x61, 0x62, 0x63] startState = startState \<and>
   failureCount (importLine (exampleEnv acceptingNotion [])
                   [0x2C, 0x2C, 0x2C, 0x2C, 0x2C, 0x61, 0x62, 0x63] startState) = 0"
  by (simp add: importLine_def line_eval amount_eval startState_def)

lemma orElse_falsy: "\<not> truthy v \<Longrightarrow> orElse v d = d"
  by (cases v) auto

text \<open>
  Claim C6. For every data row, in every page that the loop body submits to the
  remote service for the row, a field whose column is empty or missing has its
  fallback value: the title \<open>STR_NO_NAME\<close> for the description, the category
  \<open>STR_OTHER\<close>, the counterparty \<open>STR_UNKNOWN\<close>, the direction \<open>STR_EXPENSE\<close>, the
  payment method \<open>STR_UNKNOWN\<close>.
\<close>

theorem importLine_fallback_values:
  assumes "trim raw \<noteq> []"
    and "columns = parseColumns (trim raw)"
    and "Create page res \<in> set (newEvents (world st) (world (importLine env raw st)))"
  shows "(\<not> truthy (element columns 3) \<longrightarrow> page_Name page = STR_NO_NAME) \<and>
         (\<not> truthy (element columns 1) \<longrightarrow> page_Category page = STR_OTHER) \<and>
         (\<not> truthy (element columns 2) \<longrightarrow> page_Counterparty page = STR_UNKNOWN) \<and>
         (\<not> truthy (element columns 4) \<longrightarrow> page_Type page = STR_EXPENSE) \<and>
         (\<not> truthy (element columns 6) \<longrightarrow> page_Payment_Method page = STR_UNKNOWN)"
  using assms
  by (auto simp: importLine_def Let_def newEvents_def console_def callCreate_def newPage_def
        orElse_falsy split: option.splits if_splits prod.splits sum.splits)

text \<open>
  The line \<^verbatim>\<open>2024,,,,,5\<close>: only the timestamp and the amount are given, the columns
  between them are empty and the seventh is missing.
\<close>

theorem importLine_fallback_values_witness:
  "parseColumns (trim [0x32, 0x30, 0x32, 0x34, 0x2C, 0x2C, 0x2C, 0x2C, 0x2C, 0x35]) =
     [[0x32, 0x30, 0x32, 0x34], [], [], [], [], [0x35]] \<and>
   newEvents (world startState)
     (world (importLine (exampleEnv acceptingNotion [])
               [0x32, 0x30, 0x32, 0x34, 0x2C, 0x2C, 0x2C, 0x2C, 0x2C, 0x35] startState)) =
     [Create
        \<lparr>page_Name = STR_NO_NAME,
         page_Date = [0x32, 0x30, 0x32, 0x34, 0x2D, 0x30, 0x31, 0x2D, 0x30, 0x31, 0x54, 0x30,
                      0x30, 0x3A, 0x30, 0x30, 0x3A, 0x30, 0x30, 0x2E, 0x30, 0x30, 0x30, 0x5A],
         page_Category = STR_OTHER,
         page_Counterparty = STR_UNKNOWN,
         page_Type = STR_EXPENSE,
         page_Amount = Num 5,
         page_Payment_Method = STR_UNKNOWN\<rparr> (Inr ()),
      Console (LogImported [0x32, 0x30, 0x32, 0x34] (Some []) [0x35])]"
  using importLine_fallback_values
    [of "[0x32, 0x30, 0x32, 0x34, 0x2C, 0x2C, 0x2C, 0x2C, 0x2C, 0x35]"
        "[[0x32, 0x30, 0x32, 0x34], [], [], [], [], [0x35]]"
        "\<lparr>page_Name = STR_NO_NAME,
         page_Date = [0x32, 0x30, 0x32, 0x34, 0x2D, 0x30, 0x31, 0x2D, 0x30, 0x31, 0x54, 0x30,
                      0x30, 0x3A, 0x30, 0x30, 0x3A, 0x30, 0x30, 0x2E, 0x30, 0x30, 0x30, 0x5A],
         page_Category = STR_OTHER,
         page_Counterparty = STR_UNKNOWN,
         page_Type = STR_EXPENSE,
         page_Amount = Num 5,
         page_Payment_Method = STR_UNKNOWN\<rparr>"
        "Inr ()" startState "exampleEnv acceptingNotion []"]
  by (simp add: importLine_def newPage_def line_eval amount_eval env_eval)

section \<open>Failure of the schema update\<close>

lemma updateDatabaseProperties_events:
  "updateDatabaseProperties api props w = (res, w') \<Longrightarrow>
   \<exists>evs. trace w' = trace w @ evs \<and> filter isCreate evs = [] \<and>
     (\<forall>ev\<in>set evs. \<forall>e. failedSchemaCall ev = Some e \<longrightarrow>
        res = Inl e \<and> last evs = Console (ErrUpdateFailed e))"
  by (auto simp: updateDatabaseProperties_def updateDatabaseProperties_try_def callRetrieve_def
        callUpdate_def console_def split: prod.splits sum.splits option.splits)

lemma importLine_events:
  "\<exists>evs. trace (world (importLine env raw st)) = trace (world st) @ evs \<and>
     (\<forall>ev\<in>set evs. failedSchemaCall ev = None)"
  by (auto simp: importLine_def Let_def callCreate_def console_def
        split: prod.splits sum.splits option.splits)

lemma importLines_events:
  "\<exists>evs. trace (world (importLines env ls st)) = trace (world st) @ evs \<and>
     (\<forall>ev\<in>set evs. failedSchemaCall ev = None)"
proof (induction ls arbitrary: st)
  case Nil
  show ?case by simp
next
  case (Cons raw rest)
  from importLine_events [of env raw st] obtain evs1 where
    1: "trace (world (importLine env raw st)) = trace (world st) @ evs1"
       "\<forall>ev\<in>set evs1. failedSchemaCall ev = None" by blast
  from Cons.IH [of "importLine env raw st"] obtain evs2 where
    2: "trace (world (importLines env rest (importLine env raw st))) =
          trace (world (importLine env raw st)) @ evs2"
       "\<forall>ev\<in>set evs2. failedSchemaCall ev = None" by blast
  from 1 2
  have "trace (world (importLines env (raw # rest) st)) = trace (world st) @ (evs1 @ evs2) \<and>
        (\<forall>ev\<in>set (evs1 @ evs2). failedSchemaCall ev = None)" by auto
  then show ?case by blast
qed

text \<open>
  The events of the \<^verbatim>\<open>try\<close> block of \<open>main\<close>: when a schema call failed with
  \<open>e\<close>, the block was left with \<open>e\<close>, the failure was logged, and no page was
  created.
\<close>

lemma main_try_events:
  assumes run: "main_try env csvPath w = (r, w')"
  shows "\<exists>evs. trace w' = trace w @ evs \<and>
           (\<forall>ev\<in>set evs. \<forall>e. failedSchemaCall ev = Some e \<longrightarrow>
              r = Inl e \<and> Console (ErrUpdateFailed e) \<in> set evs \<and> filter isCreate evs = [])"
proof (cases "csvPath = None \<or> csvPath = Some []")
  case True
  with run have "trace w' = trace w @ [Console ErrNoCsvPath, Console LogUsage]"
    by (auto simp: main_try_def console_def)
  then show ?thesis by auto
next
  case False
  then obtain p where p: "csvPath = Some p" "p \<noteq> []" by (cases csvPath) auto
  show ?thesis
  proof (cases "existsSync env (pathResolve env p)")
    case False
    with run p have "trace w' = trace w @ [Console (ErrFileNotFound (pathResolve env p))]"
      by (auto simp: main_try_def console_def)
    then show ?thesis by auto
  next
    case present: True
    show ?thesis
    proof (cases "readFileSync env (pathResolve env p)")
      case (Inl error)
      with run p present
      have "trace w' = trace w @ [Console (LogReadingFile (pathResolve env p))]"
        by (auto simp: main_try_def console_def)
      then show ?thesis by auto
    next
      case content: (Inr csvContent)
      define uv where "uv = extractUniqueValues csvContent"
      define pre where "pre = [Console (LogReadingFile (pathResolve env p)), Console LogAnalysing,
        Console (LogCategoriesFound (categories uv)),
        Console (LogPaymentMethodsFound (paymentMethods uv)), Console LogUpdatingStructure]"
      define w3 where "w3 = w\<lparr>trace := trace w @ pre\<rparr>"
      define props where "props = getDatabaseProperties uv"
      obtain res w4 where upd: "updateDatabaseProperties (notion env) props w3 = (res, w4)"
        by (cases "updateDatabaseProperties (notion env) props w3") auto
      from updateDatabaseProperties_events [OF upd] obtain evs where
        evs: "trace w4 = trace w3 @ evs" "filter isCreate evs = []"
             "\<forall>ev\<in>set evs. \<forall>e. failedSchemaCall ev = Some e \<longrightarrow>
                res = Inl e \<and> last evs = Console (ErrUpdateFailed e)"
        by blast
      have pre_ok: "\<forall>ev\<in>set pre. failedSchemaCall ev = None" "filter isCreate pre = []"
        by (simp_all add: pre_def)
      have w3_eq: "console LogUpdatingStructure
              (console (LogPaymentMethodsFound (paymentMethods uv))
                (console (LogCategoriesFound (categories uv))
                  (console LogAnalysing (console (LogReadingFile (pathResolve env p)) w)))) = w3"
        by (simp add: w3_def pre_def console_def)
      have run': "(case res of
               Inl error \<Rightarrow> (Inl error, w4)
             | Inr database \<Rightarrow>
                 (case databaseResponse.properties database of
                    None \<Rightarrow> (Inl TypeError, w4)
                  | Some keys \<Rightarrow>
                      let w5 = console (LogPropertiesUpdated keys) w4;
                          lines = split LF csvContent;
                          dataStartIndex = findIndex (\<lambda>line. strIncludes line HEADER_MARKER) lines
                      in if dataStartIndex = -1 then (Inl NoDataSection, w5)
                         else
                           let st = importLines env (drop (nat (dataStartIndex + 1)) lines)
                                      \<lparr>world = w5, successCount = 0, failureCount = 0\<rparr>
                           in (Inr Returned,
                               console (LogStatistics (successCount st) (failureCount st))
                                 (world st)))) = (r, w')"
        using run p present content upd
        by (simp add: main_try_def Let_def w3_eq uv_def [symmetric] props_def [symmetric])
      show ?thesis
      proof (cases res)
        case (Inl e')
        with run' have r: "r = Inl e'" "w' = w4" by auto
        then have tr: "trace w' = trace w @ (pre @ evs)"
          by (simp add: evs(1) w3_def)
        have "\<forall>ev\<in>set (pre @ evs). \<forall>e. failedSchemaCall ev = Some e \<longrightarrow>
                r = Inl e \<and> Console (ErrUpdateFailed e) \<in> set (pre @ evs) \<and>
                filter isCreate (pre @ evs) = []"
        proof (intro ballI allI impI)
          fix ev e assume ev: "ev \<in> set (pre @ evs)" and failed: "failedSchemaCall ev = Some e"
          with pre_ok have in_evs: "ev \<in> set evs" by auto
          with evs(3) failed Inl have e: "e' = e" "last evs = Console (ErrUpdateFailed e)" by auto
          from in_evs have "evs \<noteq> []" by auto
          with e(2) have "Console (ErrUpdateFailed e) \<in> set evs" by (metis last_in_set)
          with r e pre_ok evs(2)
          show "r = Inl e \<and> Console (ErrUpdateFailed e) \<in> set (pre @ evs) \<and>
                filter isCreate (pre @ evs) = []" by simp
        qed
        with tr show ?thesis by blast
      next
        case (Inr database)
        have no_fail: "\<forall>ev\<in>set evs. failedSchemaCall ev = None"
        proof
          fix x assume "x \<in> set evs"
          with evs(3) Inr show "failedSchemaCall x = None"
            by (cases "failedSchemaCall x") auto
        qed
        show ?thesis
        proof (cases "databaseResponse.properties database")
          case None
          with run' Inr have "w' = w4" by auto
          then have "trace w' = trace w @ (pre @ evs)" by (simp add: evs(1) w3_def)
          moreover have "\<forall>ev\<in>set (pre @ evs). failedSchemaCall ev = None"
            using pre_ok no_fail by auto
          ultimately show ?thesis by (metis option.distinct(1))
        next
          case (Some keys)
          define w5 where "w5 = console (LogPropertiesUpdated keys) w4"
          have w5: "trace w5 = trace w @ pre @ evs @ [Console (LogPropertiesUpdated keys)]"
            by (simp add: w5_def console_def evs(1) w3_def)
          show ?thesis
          proof (cases "findIndex (\<lambda>line. strIncludes line HEADER_MARKER) (split LF csvContent)
                          = - 1")
            case True
            with run' Inr Some have "w' = w5" by (auto simp: w5_def)
            then have "trace w' = trace w @ (pre @ evs @ [Console (LogPropertiesUpdated keys)])"
              by (simp add: w5)
            moreover have "\<forall>ev\<in>set (pre @ evs @ [Console (LogPropertiesUpdated keys)]).
                             failedSchemaCall ev = None"
              using pre_ok no_fail by auto
            ultimately show ?thesis by (metis option.distinct(1))
          next
            case False
            define st where "st = importLines env
               (drop (nat (findIndex (\<lambda>line. strIncludes line HEADER_MARKER) (split LF csvContent)
                            + 1))
                  (split LF csvContent))
               \<lparr>world = w5, successCount = 0, failureCount = 0\<rparr>"
            from importLines_events [of env _ "\<lparr>world = w5, successCount = 0, failureCount = 0\<rparr>"]
            obtain evs2 where evs2: "trace (world st) = trace w5 @ evs2"
                "\<forall>ev\<in>set evs2. failedSchemaCall ev = None"
              unfolding st_def by fastforce
            define every where "every = pre @ evs @ [Console (LogPropertiesUpdated keys)] @ evs2 @
                          [Console (LogStatistics (successCount st) (failureCount st))]"
            from run' Inr Some False
            have "w' = console (LogStatistics (successCount st) (failureCount st)) (world st)"
              by (auto simp: w5_def st_def Let_def)
            then have "trace w' = trace w @ every"
              by (simp add: console_def evs2(1) w5 every_def)
            moreover have "\<forall>ev\<in>set every. failedSchemaCall ev = None"
              using pre_ok no_fail evs2(2) by (auto simp: every_def)
            ultimately show ?thesis by (metis option.distinct(1))
          qed
        qed
      qed
    qed
  qed
qed

text \<open>
  Claim C3. When a retrieve or update call of the schema step fails with an error
  \<open>e\<close>: \<open>updateDatabaseProperties\<close> logs the failure (line 134) with \<open>e\<close> as its last
  action and returns \<open>e\<close> as thrown to its caller; and in a run of \<open>main\<close> in which
  such a call failed, that log line is in the trace, the run ends in the
  top-level handler logging \<open>e\<close>, and the run issued no create call.
\<close>

theorem schema_failure_aborts_import:
  "(updateDatabaseProperties api props wa = (res, wb) \<and> eva \<in> set (newEvents wa wb) \<and>
      failedSchemaCall eva = Some ea \<longrightarrow>
        res = Inl ea \<and> last (trace wb) = Console (ErrUpdateFailed ea)) \<and>
   (main env csvPath w = (c, w') \<and> ev \<in> set (newEvents w w') \<and>
      failedSchemaCall ev = Some e \<longrightarrow>
        Console (ErrUpdateFailed e) \<in> set (newEvents w w') \<and>
        last (trace w') = Console (ErrProcessing e) \<and>
        filter isCreate (newEvents w w') = [])"
proof (intro conjI impI)
  assume a: "updateDatabaseProperties api props wa = (res, wb) \<and>
      eva \<in> set (newEvents wa wb) \<and> failedSchemaCall eva = Some ea"
  from updateDatabaseProperties_events [of api props wa res wb] a obtain evs where
    evs: "trace wb = trace wa @ evs"
         "\<forall>ev\<in>set evs. \<forall>e. failedSchemaCall ev = Some e \<longrightarrow>
              res = Inl e \<and> last evs = Console (ErrUpdateFailed e)" by blast
  from a evs(1) have in_evs: "eva \<in> set evs" by (simp add: newEvents_def)
  with evs(2) a have "res = Inl ea" "last evs = Console (ErrUpdateFailed ea)" by auto
  moreover from in_evs have "evs \<noteq> []" by auto
  ultimately show "res = Inl ea" "last (trace wb) = Console (ErrUpdateFailed ea)"
    by (simp_all add: evs(1))
next
  assume a: "main env csvPath w = (c, w') \<and> ev \<in> set (newEvents w w') \<and>
      failedSchemaCall ev = Some e"
  obtain r w2 where mt: "main_try env csvPath w = (r, w2)"
    by (cases "main_try env csvPath w") auto
  from main_try_events [OF mt] obtain evs where
    evs: "trace w2 = trace w @ evs"
         "\<forall>ev\<in>set evs. \<forall>e. failedSchemaCall ev = Some e \<longrightarrow>
              r = Inl e \<and> Console (ErrUpdateFailed e) \<in> set evs \<and> filter isCreate evs = []"
    by blast
  have in_evs: "ev \<in> set evs"
  proof (cases r)
    case (Inl e')
    with a mt have "w' = console (ErrProcessing e') w2" by (simp add: main_def)
    then have "newEvents w w' = evs @ [Console (ErrProcessing e')]"
      by (simp add: newEvents_def console_def evs(1))
    with a show ?thesis by auto
  next
    case (Inr c')
    with a mt have "w' = w2" by (simp add: main_def)
    with a show ?thesis by (simp add: newEvents_def evs(1))
  qed
  with evs(2) a have r: "r = Inl e" "Console (ErrUpdateFailed e) \<in> set evs"
    "filter isCreate evs = []" by auto
  with a mt have "w' = console (ErrProcessing e) w2" by (simp add: main_def)
  then have ne: "newEvents w w' = evs @ [Console (ErrProcessing e)]"
    and tr: "trace w' = trace w @ evs @ [Console (ErrProcessing e)]"
    by (simp_all add: newEvents_def console_def evs(1))
  from ne r show "Console (ErrUpdateFailed e) \<in> set (newEvents w w')" by simp
  from tr show "last (trace w') = Console (ErrProcessing e)" by simp
  from ne r show "filter isCreate (newEvents w w') = []" by simp
qed

text \<open>
  A run on a file with the header and the valid line \<^verbatim>\<open>2024,,,,,5\<close>, against a
  service whose update call fails.
\<close>

theorem schema_failure_aborts_import_witness:
  "Update (getDatabaseProperties \<lparr>categories = [], paymentMethods = []\<rparr>) (Inl exampleError)
     \<in> set (newEvents emptyWorld
              (snd (updateDatabaseProperties updateFailingNotion
                      (getDatabaseProperties \<lparr>categories = [], paymentMethods = []\<rparr>)
                      emptyWorld))) \<and>
   fst (updateDatabaseProperties updateFailingNotion
          (getDatabaseProperties \<lparr>categories = [], paymentMethods = []\<rparr>) emptyWorld) =
     Inl exampleError \<and>
   Update (getDatabaseProperties \<lparr>categories = [], paymentMethods = []\<rparr>) (Inl exampleError)
     \<in> set (newEvents emptyWorld
              (snd (main (exampleEnv updateFailingNotion
                            (HEADER_MARKER @ [LF, 0x32, 0x30, 0x32, 0x34, 0x2C, 0x2C, 0x2C,
                                              0x2C, 0x2C, 0x35]))
                      (Some [0x62, 0x69, 0x6C, 0x6C, 0x2E, 0x63, 0x73, 0x76]) emptyWorld))) \<and>
   last (trace (snd (main (exampleEnv updateFailingNotion
                            (HEADER_MARKER @ [LF, 0x32, 0x30, 0x32, 0x34, 0x2C, 0x2C, 0x2C,
                                              0x2C, 0x2C, 0x35]))
                      (Some [0x62, 0x69, 0x6C, 0x6C, 0x2E, 0x63, 0x73, 0x76]) emptyWorld))) =
     Console (ErrProcessing exampleError) \<and>
   filter isCreate
     (newEvents emptyWorld
        (snd (main (exampleEnv updateFailingNotion
                      (HEADER_MARKER @ [LF, 0x32, 0x30, 0x32, 0x34, 0x2C, 0x2C, 0x2C,
                                        0x2C, 0x2C, 0x35]))
                (Some [0x62, 0x69, 0x6C, 0x6C, 0x2E, 0x63, 0x73, 0x76]) emptyWorld))) = []"
  using schema_failure_aborts_import
    [where api = updateFailingNotion
       and props = "getDatabaseProperties \<lparr>categories = [], paymentMethods = []\<rparr>"
       and wa = emptyWorld
       and res = "fst (updateDatabaseProperties updateFailingNotion
                    (getDatabaseProperties \<lparr>categories = [], paymentMethods = []\<rparr>) emptyWorld)"
       and wb = "snd (updateDatabaseProperties updateFailingNotion
                    (getDatabaseProperties \<lparr>categories = [], paymentMethods = []\<rparr>) emptyWorld)"
       and eva = "Update (getDatabaseProperties \<lparr>categories = [], paymentMethods = []\<rparr>)
                    (Inl exampleError)"
       and ea = exampleError
       and env = "exampleEnv updateFailingNotion
                    (HEADER_MARKER @ [LF, 0x32, 0x30, 0x32, 0x34, 0x2C, 0x2C, 0x2C,
                                      0x2C, 0x2C, 0x35])"
       and csvPath = "Some [0x62, 0x69, 0x6C, 0x6C, 0x2E, 0x63, 0x73, 0x76]"
       and w = emptyWorld
       and c = "fst (main (exampleEnv updateFailingNotion
                      (HEADER_MARKER @ [LF, 0x32, 0x30, 0x32, 0x34, 0x2C, 0x2C, 0x2C,
                                        0x2C, 0x2C, 0x35]))
                (Some [0x62, 0x69, 0x6C, 0x6C, 0x2E, 0x63, 0x73, 0x76]) emptyWorld)"
       and w' = "snd (main (exampleEnv updateFailingNotion
                      (HEADER_MARKER @ [LF, 0x32, 0x30, 0x32, 0x34, 0x2C, 0x2C, 0x2C,
                                        0x2C, 0x2C, 0x35]))
                (Some [0x62, 0x69, 0x6C, 0x6C, 0x2E, 0x63, 0x73, 0x76]) emptyWorld)"
       and ev = "Update (getDatabaseProperties \<lparr>categories = [], paymentMethods = []\<rparr>)
                   (Inl exampleError)"
       and e = exampleError]
  by (simp add: main_def main_try_def updateDatabaseProperties_def
        updateDatabaseProperties_try_def extract_eval line_eval env_eval)

section \<open>Amounts with a numeric prefix\<close>











end
